theory Spec2Isabelle
  imports Main
begin

section \<open>Values of the host language\<close>

text \<open>
  \<^verbatim>\<open>new Error(message)\<close>: the only exception the sources construct. A thrown exception is
  the left summand of a result \<open>error + 'a\<close>.
\<close>

datatype error = Error string

text \<open>
  The settled outcome of a promise. \<open>login\<close> is an \<^verbatim>\<open>async\<close> arrow function, so what it
  returns is a promise; its body contains no \<^verbatim>\<open>await\<close>, so the promise is settled when the
  call returns.
\<close>

datatype 'a promise = Fulfilled 'a | Rejected error

text \<open>
  \<^verbatim>\<open>!!v\<close> for \<^verbatim>\<open>v : string | null\<close>: \<^verbatim>\<open>null\<close> and the empty string are falsy, every other
  string is truthy.
\<close>

fun truthy :: "string option \<Rightarrow> bool" where
  "truthy None = False"
| "truthy (Some s) = (s \<noteq> [])"

section \<open>src/context/AuthContext.tsx\<close>

text \<open>
  \<^verbatim>\<open>interface AuthContextType { user: string | null; login: (username, password) => Promise<void>;
  logout: () => void }\<close>.
  The two operations are closures over the state setter of the component that built the
  value; here they take the state they act on and return the next one. \<open>'s\<close> is the type
  of that state.
\<close>

record 's AuthContextType =
  user :: "string option"
  login :: "string \<Rightarrow> string \<Rightarrow> 's \<Rightarrow> unit promise \<times> 's"
  logout :: "'s \<Rightarrow> 's"

text \<open>\<^verbatim>\<open>const [user, setUser] = useState<string | null>(null)\<close>: one state cell.\<close>

record AuthProvider_state =
  state_user :: "string option"

definition AuthProvider_mount :: AuthProvider_state where
  "AuthProvider_mount = \<lparr>state_user = None\<rparr>"

definition setUser :: "string option \<Rightarrow> AuthProvider_state \<Rightarrow> AuthProvider_state" where
  "setUser v s = s\<lparr>state_user := v\<rparr>"

text \<open>
  \<^verbatim>\<open>const login = async (username, password) => { setUser(username); }\<close>
\<close>

definition AuthProvider_login ::
  "string \<Rightarrow> string \<Rightarrow> AuthProvider_state \<Rightarrow> unit promise \<times> AuthProvider_state" where
  "AuthProvider_login username password s = (Fulfilled (), setUser (Some username) s)"

text \<open>\<^verbatim>\<open>const logout = () => setUser(null)\<close>\<close>

definition AuthProvider_logout :: "AuthProvider_state \<Rightarrow> AuthProvider_state" where
  "AuthProvider_logout s = setUser None s"

text \<open>\<^verbatim>\<open><AuthContext.Provider value={{ user, login, logout }}>\<close>: the value of one render.\<close>

definition AuthProvider :: "AuthProvider_state \<Rightarrow> AuthProvider_state AuthContextType" where
  "AuthProvider s =
     \<lparr>user = state_user s, login = AuthProvider_login, logout = AuthProvider_logout\<rparr>"

text \<open>
  \<^verbatim>\<open>createContext<AuthContextType | undefined>(undefined)\<close> and \<^verbatim>\<open>useContext(AuthContext)\<close>:
  the argument is the state of the nearest enclosing provider, \<open>None\<close> when the caller is
  rendered outside every provider; the result is then the default, \<^verbatim>\<open>undefined\<close>.
\<close>

definition useContext ::
  "AuthProvider_state option \<Rightarrow> AuthProvider_state AuthContextType option" where
  "useContext p = (case p of None \<Rightarrow> None | Some s \<Rightarrow> Some (AuthProvider s))"

text \<open>
  \<^verbatim>\<open>useAuth\<close>: \<^verbatim>\<open>if (!context) throw new Error(...)\<close>. An object is always truthy, so the
  test fails exactly on \<^verbatim>\<open>undefined\<close>.
\<close>

definition useAuth :: "'s AuthContextType option \<Rightarrow> error + 's AuthContextType" where
  "useAuth context =
     (case context of
        None \<Rightarrow> Inl (Error ''useAuth must be used within an AuthProvider'')
      | Some c \<Rightarrow> Inr c)"

section \<open>src/hooks/useAuth.ts\<close>

record 's AuthAPI = "'s AuthContextType" +
  isAuthenticated :: bool

definition useAuthAPI :: "'s AuthContextType option \<Rightarrow> error + 's AuthAPI" where
  "useAuthAPI context =
     (case useAuth context of
        Inl e \<Rightarrow> Inl e
      | Inr c \<Rightarrow>
          Inr \<lparr>user = user c, login = login c, logout = logout c,
               isAuthenticated = truthy (user c)\<rparr>)"

section \<open>src/components/LoginForm.tsx\<close>

text \<open>The two \<^verbatim>\<open>useState('')\<close> cells of the form and their setters.\<close>

record LoginForm_state =
  username :: string
  password :: string

definition LoginForm_mount :: LoginForm_state where
  "LoginForm_mount = \<lparr>username = [], password = []\<rparr>"

definition setUsername :: "string \<Rightarrow> LoginForm_state \<Rightarrow> LoginForm_state" where
  "setUsername v f = f\<lparr>username := v\<rparr>"

definition setPassword :: "string \<Rightarrow> LoginForm_state \<Rightarrow> LoginForm_state" where
  "setPassword v f = f\<lparr>password := v\<rparr>"

text \<open>
  The submit event, as far as the handler touches it: \<^verbatim>\<open>e.preventDefault()\<close> sets the
  flag that stops the browser's default action, the navigation of a form submission
  (a submit event is cancelable).
\<close>

record FormEvent =
  defaultPrevented :: bool

definition preventDefault :: "FormEvent \<Rightarrow> FormEvent" where
  "preventDefault e = e\<lparr>defaultPrevented := True\<rparr>"

text \<open>
  \<^verbatim>\<open>await p\<close> inside an \<^verbatim>\<open>async\<close> function whose remaining body is empty: a rejection of
  \<open>p\<close> rejects the function's own promise, a fulfilment fulfils it with \<^verbatim>\<open>undefined\<close>.
\<close>

fun await :: "'a promise \<Rightarrow> unit promise" where
  "await (Fulfilled _) = Fulfilled ()"
| "await (Rejected err) = Rejected err"

text \<open>
  \<^verbatim>\<open>const handleSubmit = async (e) => { e.preventDefault(); await login(username, password); }\<close>
  with \<open>login_fn\<close> the \<^verbatim>\<open>login\<close> taken from the facade.
\<close>

definition LoginForm_handleSubmit ::
  "(string \<Rightarrow> string \<Rightarrow> 's \<Rightarrow> unit promise \<times> 's) \<Rightarrow> LoginForm_state \<Rightarrow>
   FormEvent \<Rightarrow> 's \<Rightarrow> FormEvent \<times> unit promise \<times> 's" where
  "LoginForm_handleSubmit login_fn f e s =
     (let e' = preventDefault e;
          (r, s') = login_fn (username f) (password f) s
      in (e', await r, s'))"

text \<open>
  One render of the component: \<^verbatim>\<open>const { login } = useAuthAPI()\<close> may throw; otherwise the
  form is returned, of which the \<^verbatim>\<open>onSubmit\<close> handler is kept.
\<close>

definition LoginForm ::
  "'s AuthContextType option \<Rightarrow> LoginForm_state \<Rightarrow>
   error + (FormEvent \<Rightarrow> 's \<Rightarrow> FormEvent \<times> unit promise \<times> 's)" where
  "LoginForm context f =
     (case useAuthAPI context of
        Inl e \<Rightarrow> Inl e
      | Inr api \<Rightarrow> Inr (LoginForm_handleSubmit (login api) f))"

section \<open>src/index.ts\<close>

text \<open>Each \<^verbatim>\<open>export { a, b } from 'm'\<close> statement, in the order of the file.\<close>

record export_decl =
  export_names :: "string list"
  export_from :: string

definition index_ts :: "export_decl list" where
  "index_ts =
     [\<lparr>export_names = [''AuthProvider'', ''useAuth''], export_from = ''./context/AuthContext''\<rparr>,
      \<lparr>export_names = [''LoginForm''], export_from = ''./components/LoginForm''\<rparr>,
      \<lparr>export_names = [''useAuthAPI''], export_from = ''./hooks/useAuth''\<rparr>]"

definition exported_bindings :: "export_decl list \<Rightarrow> string list" where
  "exported_bindings ds = concat (map export_names ds)"

section \<open>Runs of the provider\<close>

text \<open>
  The context value offers two operations that change the provider's state; a run is a
  sequence of calls to them, starting from the state of the mount.
\<close>

datatype action = Login string string | Logout

fun step :: "action \<Rightarrow> AuthProvider_state \<Rightarrow> AuthProvider_state" where
  "step (Login u p) s = snd (AuthProvider_login u p s)"
| "step Logout s = AuthProvider_logout s"

definition run :: "action list \<Rightarrow> AuthProvider_state" where
  "run as = fold step as AuthProvider_mount"

text \<open>
  A stand-in for \<^verbatim>\<open>login\<close> that only records its arguments, one entry per call, in the
  order of the calls.
\<close>

definition recording_login ::
  "string \<Rightarrow> string \<Rightarrow> (string \<times> string) list \<Rightarrow> unit promise \<times> (string \<times> string) list" where
  "recording_login u p calls = (Fulfilled (), calls @ [(u, p)])"

section \<open>Basic facts\<close>

lemma useAuthAPI_mounted:
  "useAuthAPI (useContext (Some s)) =
     Inr \<lparr>user = state_user s, login = AuthProvider_login, logout = AuthProvider_logout,
          isAuthenticated = truthy (state_user s)\<rparr>"
  by (simp add: useAuthAPI_def useAuth_def useContext_def AuthProvider_def)

section \<open>Logout\<close>

text \<open>
  C4: after \<open>logout\<close>, from any prior state (logged in or already logged out), the facade
  reads \<open>user\<close> absent and \<open>isAuthenticated\<close> false.
\<close>

theorem logout_clears_session:
  "state_user (AuthProvider_logout s) = None
   \<and> \<not> isl (useAuthAPI (useContext (Some (AuthProvider_logout s))))
   \<and> user (projr (useAuthAPI (useContext (Some (AuthProvider_logout s))))) = None
   \<and> isAuthenticated (projr (useAuthAPI (useContext (Some (AuthProvider_logout s))))) = False
   \<and> logout (projr (useAuthAPI (useContext (Some s)))) = AuthProvider_logout"
  by (simp add: useAuthAPI_mounted AuthProvider_logout_def setUser_def)

text \<open>
  C6: \<open>logout\<close> is idempotent: from any state, two calls in a row leave the state that one
  call leaves.
\<close>

theorem logout_idempotent:
  "AuthProvider_logout (AuthProvider_logout s) = AuthProvider_logout s"
  by (simp add: AuthProvider_logout_def setUser_def)

section \<open>Login\<close>

text \<open>
  C1, as the code has it: for every username \<open>u\<close> and password \<open>p\<close>, after \<open>login u p\<close> the
  facade reads \<open>user = u\<close>, and \<open>isAuthenticated\<close> is true exactly when \<open>u\<close> is not the
  empty string; the password is never inspected, and the facade's \<open>login\<close> is the
  provider's.
\<close>

theorem login_then_read:
  "\<not> isl (useAuthAPI (useContext (Some (snd (AuthProvider_login u p s)))))
   \<and> user (projr (useAuthAPI (useContext (Some (snd (AuthProvider_login u p s)))))) = Some u
   \<and> isAuthenticated (projr (useAuthAPI (useContext (Some (snd (AuthProvider_login u p s))))))
       = (u \<noteq> [])
   \<and> login (projr (useAuthAPI (useContext (Some s)))) = AuthProvider_login"
  by (simp add: useAuthAPI_mounted AuthProvider_login_def setUser_def)

text \<open>
  C1 as stated fails for the empty username: after \<open>login\<close> with the empty string and the
  password \<open>secret\<close> on a freshly mounted provider, the facade reads \<open>user\<close> as the empty
  string and \<open>isAuthenticated\<close> as false.
\<close>

theorem login_empty_username_counterexample:
  "user (projr (useAuthAPI (useContext
      (Some (snd (AuthProvider_login [] ''secret'' AuthProvider_mount)))))) = Some []
   \<and> \<not> isAuthenticated (projr (useAuthAPI (useContext
      (Some (snd (AuthProvider_login [] ''secret'' AuthProvider_mount))))))"
  by (simp add: useAuthAPI_mounted AuthProvider_login_def setUser_def)

text \<open>
  C9: the password does not influence \<open>login\<close>: for the same username and prior state, two
  passwords give the same resulting state and the same settled promise, also when \<open>login\<close>
  is taken from the facade.
\<close>

theorem login_ignores_password:
  "AuthProvider_login u p1 s = AuthProvider_login u p2 s
   \<and> login (projr (useAuthAPI (useContext (Some s)))) u p1 s
       = login (projr (useAuthAPI (useContext (Some s)))) u p2 s"
  by (simp add: useAuthAPI_mounted AuthProvider_login_def)

text \<open>
  C10: \<open>login\<close> never fails: for every pair of strings the promise it returns is fulfilled,
  never rejected, and the state it leaves is the prior state with \<open>user\<close> assigned the
  username.
\<close>

theorem login_never_fails:
  "AuthProvider_login u p s = (Fulfilled (), s\<lparr>state_user := Some u\<rparr>)
   \<and> (\<forall>err. fst (AuthProvider_login u p s) \<noteq> Rejected err)"
  by (simp add: AuthProvider_login_def setUser_def)

section \<open>The facade\<close>

text \<open>
  C2, as the code has it: in every state a run of the provider reaches, the facade's
  \<open>isAuthenticated\<close> is true exactly when \<open>user\<close> is neither absent nor the empty string.
\<close>

theorem isAuthenticated_is_truthiness:
  "\<not> isl (useAuthAPI (useContext (Some (run as))))
   \<and> isAuthenticated (projr (useAuthAPI (useContext (Some (run as)))))
       = (user (projr (useAuthAPI (useContext (Some (run as))))) \<noteq> None
          \<and> user (projr (useAuthAPI (useContext (Some (run as))))) \<noteq> Some [])"
  by (cases "state_user (run as)") (simp_all add: useAuthAPI_mounted)

text \<open>
  C2 as stated fails in the state reached by a \<open>login\<close> with two empty strings (what
  submitting the freshly mounted form does): \<open>user\<close> is present, the empty string, and
  \<open>isAuthenticated\<close> is false.
\<close>

theorem isAuthenticated_presence_counterexample:
  "user (projr (useAuthAPI (useContext (Some (run [Login [] []]))))) \<noteq> None
   \<and> \<not> isAuthenticated (projr (useAuthAPI (useContext (Some (run [Login [] []])))))"
  by (simp add: useAuthAPI_mounted run_def AuthProvider_mount_def AuthProvider_login_def
      setUser_def)

text \<open>
  C3: without a provider the facade throws the missing-context error at the call, as do
  \<open>useAuth\<close> and the form that calls the facade; under a provider none of them throws,
  whatever the provider's state and the form's fields; and a throw of any of them is
  always that error, with no provider.
\<close>

theorem facade_throws_iff_no_provider:
  "useAuth (useContext None) = Inl (Error ''useAuth must be used within an AuthProvider'')
   \<and> useAuthAPI (useContext None) = Inl (Error ''useAuth must be used within an AuthProvider'')
   \<and> LoginForm (useContext None) f = Inl (Error ''useAuth must be used within an AuthProvider'')
   \<and> \<not> isl (useAuth (useContext (Some s)))
   \<and> \<not> isl (useAuthAPI (useContext (Some s)))
   \<and> \<not> isl (LoginForm (useContext (Some s)) f)
   \<and> (useAuth c = Inl e) = (c = None \<and> e = Error ''useAuth must be used within an AuthProvider'')
   \<and> (useAuthAPI c = Inl e)
       = (c = None \<and> e = Error ''useAuth must be used within an AuthProvider'')
   \<and> (LoginForm c f = Inl e)
       = (c = None \<and> e = Error ''useAuth must be used within an AuthProvider'')"
  by (cases c) (auto simp add: LoginForm_def useAuthAPI_def useAuth_def useContext_def)

section \<open>The login form\<close>

text \<open>
  C5: submitting the form whose fields hold \<open>alice\<close> and \<open>pw1\<close> (typed into the freshly
  mounted form) calls the facade's \<open>login\<close> exactly once, with exactly these two strings,
  and marks the event's default action, the navigation, as prevented.
\<close>

theorem submit_calls_login_once:
  "setPassword ''pw1'' (setUsername ''alice'' LoginForm_mount)
     = \<lparr>username = ''alice'', password = ''pw1''\<rparr>
   \<and> \<not> isl (LoginForm (Some c) \<lparr>username = ''alice'', password = ''pw1''\<rparr>)
   \<and> projr (LoginForm (Some c) \<lparr>username = ''alice'', password = ''pw1''\<rparr>) e s
       = (e\<lparr>defaultPrevented := True\<rparr>,
          await (fst (login c ''alice'' ''pw1'' s)), snd (login c ''alice'' ''pw1'' s))
   \<and> projr (LoginForm (Some \<lparr>user = None, login = recording_login, logout = id\<rparr>)
        \<lparr>username = ''alice'', password = ''pw1''\<rparr>) \<lparr>defaultPrevented = False\<rparr> []
       = (\<lparr>defaultPrevented = True\<rparr>, Fulfilled (), [(''alice'', ''pw1'')])"
  by (simp add: LoginForm_def LoginForm_handleSubmit_def useAuthAPI_def useAuth_def
      recording_login_def preventDefault_def setUsername_def setPassword_def
      LoginForm_mount_def split_beta)

section \<open>The exports\<close>

text \<open>
  C7, as the code has it: the module exports exactly four named bindings, the provider
  component \<open>AuthProvider\<close>, the context hook \<open>useAuth\<close>, the form component \<open>LoginForm\<close>
  and the facade hook \<open>useAuthAPI\<close>.
\<close>

theorem index_exports_four_bindings:
  "exported_bindings index_ts = [''AuthProvider'', ''useAuth'', ''LoginForm'', ''useAuthAPI'']
   \<and> distinct (exported_bindings index_ts)
   \<and> length (exported_bindings index_ts) = 4"
  by (simp add: exported_bindings_def index_ts_def)

text \<open>
  C7 as stated fails: the export surface does not have three bindings, it has two hooks
  beside the two components.
\<close>

theorem index_exports_counterexample:
  "length (exported_bindings index_ts) \<noteq> 3
   \<and> ''useAuth'' \<in> set (exported_bindings index_ts)
   \<and> ''useAuthAPI'' \<in> set (exported_bindings index_ts)"
  by (simp add: exported_bindings_def index_ts_def)

section \<open>The lifecycle of the session\<close>

text \<open>
  C8: the provider mounts with \<open>user\<close> absent; a call changes \<open>user\<close> to a username only if
  it is a \<open>login\<close> with that username, and changes it back to absent only if it is a
  \<open>logout\<close>; and every \<open>login\<close> sets it, every \<open>logout\<close> clears it.
\<close>

theorem session_lifecycle:
  "state_user AuthProvider_mount = None
   \<and> (\<forall>a s u. state_user (step a s) = Some u \<and> state_user s \<noteq> Some u
        \<longrightarrow> (\<exists>p. a = Login u p))
   \<and> (\<forall>a s. state_user (step a s) = None \<and> state_user s \<noteq> None \<longrightarrow> a = Logout)
   \<and> (\<forall>u p s. state_user (step (Login u p) s) = Some u)
   \<and> (\<forall>s. state_user (step Logout s) = None)"
proof -
  have set_only_by_login: "\<exists>p. a = Login u p"
    if "state_user (step a s) = Some u" "state_user s \<noteq> Some u" for a s u
    using that
    by (cases a) (simp_all add: AuthProvider_login_def AuthProvider_logout_def setUser_def)
  have cleared_only_by_logout: "a = Logout"
    if "state_user (step a s) = None" "state_user s \<noteq> None" for a s
    using that
    by (cases a) (simp_all add: AuthProvider_login_def setUser_def)
  show ?thesis
    using set_only_by_login cleared_only_by_logout
    by (auto simp add: AuthProvider_mount_def AuthProvider_login_def AuthProvider_logout_def
        setUser_def)
qed

theorem session_lifecycle_witness:
  "(state_user (step (Login ''alice'' ''pw1'') AuthProvider_mount) = Some ''alice''
      \<and> state_user AuthProvider_mount \<noteq> Some ''alice'')
   \<and> (\<exists>p. Login ''alice'' ''pw1'' = Login ''alice'' p)
   \<and> (state_user (step Logout \<lparr>state_user = Some ''alice''\<rparr>) = None
      \<and> state_user \<lparr>state_user = Some ''alice''\<rparr> \<noteq> None)
   \<and> Logout = Logout"
proof -
  have set_hyp:
    "state_user (step (Login ''alice'' ''pw1'') AuthProvider_mount) = Some ''alice''
     \<and> state_user AuthProvider_mount \<noteq> Some ''alice''"
    by (simp add: AuthProvider_mount_def AuthProvider_login_def setUser_def)
  have clear_hyp:
    "state_user (step Logout \<lparr>state_user = Some ''alice''\<rparr>) = None
     \<and> state_user \<lparr>state_user = Some ''alice''\<rparr> \<noteq> None"
    by (simp add: AuthProvider_logout_def setUser_def)
  note set_rule = session_lifecycle [THEN conjunct2, THEN conjunct1, rule_format,
      of "Login ''alice'' ''pw1''" AuthProvider_mount "''alice''"]
  note clear_rule = session_lifecycle [THEN conjunct2, THEN conjunct2, THEN conjunct1,
      rule_format, of Logout "\<lparr>state_user = Some ''alice''\<rparr>"]
  from set_rule [OF set_hyp] clear_rule [OF clear_hyp] set_hyp clear_hyp
  show ?thesis
    by blast
qed

end
